theory Spec2Isabelle
  imports
    Main
    "HOL-Library.Word"
    "HOL-Library.Char_ord"
    "HOL-Library.List_Lexorder"
    "HOL-Library.Product_Lexorder"
    "HOL-Library.FSet"
begin

section \<open>Replicated in-memory cache: the LWW store and the node\<close>

text \<open>
  A shallow embedding of package \<open>cache\<close>: its types, the store, the node with its
  replication engine, and the HTTP handlers.

  Go strings are byte strings compared bytewise, which is the lexicographic order of
  \<open>char list\<close> over the byte order of \<open>char\<close>. \<open>int64\<close> and \<open>time.Duration\<close> are
  64-bit words read through \<open>sint\<close>. A \<open>time.Time\<close> is an instant, counted in
  nanoseconds from the Unix epoch as an unbounded integer (its range is far wider than
  that of an \<open>int64\<close> of nanoseconds); the monotonic clock reading is not modelled.
\<close>

subsection \<open>Time\<close>

type_synonym int64 = "64 word"
type_synonym duration = "64 word"
type_synonym time = int
type_synonym bytes = "8 word list"

text \<open>The zero \<open>time.Time\<close> is January 1, year 1, 00:00:00 UTC.\<close>

definition zeroTime :: time where
  "zeroTime = - 62135596800000000000"

definition IsZero :: "time \<Rightarrow> bool" where
  "IsZero t = (t = zeroTime)"

text \<open>\<open>t.After(u)\<close>.\<close>

definition After :: "time \<Rightarrow> time \<Rightarrow> bool" where
  "After t u = (u < t)"

text \<open>\<open>time.Unix(0, nsec)\<close>.\<close>

definition time_Unix0 :: "int64 \<Rightarrow> time" where
  "time_Unix0 nsec = sint nsec"

text \<open>\<open>t.UnixNano()\<close>: the low 64 bits when the instant is out of range.\<close>

definition UnixNano :: "time \<Rightarrow> int64" where
  "UnixNano t = word_of_int t"

definition maxDuration :: int where
  "maxDuration = 2 ^ 63 - 1"

definition minDuration :: int where
  "minDuration = - (2 ^ 63)"

text \<open>
  \<open>t.Sub(u)\<close>: the duration \<open>t - u\<close>; when that is beyond what a \<open>Duration\<close> can hold,
  the largest (or smallest) duration is returned.
\<close>

definition Sub :: "time \<Rightarrow> time \<Rightarrow> duration" where
  "Sub t u =
     (let d = t - u in
      if maxDuration < d then word_of_int maxDuration
      else if d < minDuration then word_of_int minDuration
      else word_of_int d)"

text \<open>\<open>t.Add(d)\<close>.\<close>

definition Add :: "time \<Rightarrow> duration \<Rightarrow> time" where
  "Add t d = t + sint d"

subsection \<open>Item and SyncMsg\<close>

record Item =
  Value :: bytes
  ExpiresAt :: time
  Version :: int64
  Origin :: string
  Tombstone :: bool

text \<open>The zero value of the struct, which a composite literal completes.\<close>

definition Item0 :: Item where
  "Item0 = \<lparr>Value = [], ExpiresAt = zeroTime, Version = 0, Origin = [], Tombstone = False\<rparr>"

definition expired :: "Item \<Rightarrow> time \<Rightarrow> bool" where
  "expired it now = (\<not> IsZero (ExpiresAt it) \<and> After now (ExpiresAt it))"

record SyncMsg =
  Op :: string
  Key :: string
  MValue :: bytes
  MExpiresAt :: "time option"
  MVersion :: int64
  MOrigin :: string

subsection \<open>Store\<close>

record Store =
  data :: "string \<rightharpoonup> Item"

definition NewStore :: Store where
  "NewStore = \<lparr>data = Map.empty\<rparr>"

definition Get :: "Store \<Rightarrow> string \<Rightarrow> Item option" where
  "Get s key = data s key"

text \<open>\<open>Put\<close> returns the store after the call and \<open>applied\<close>.\<close>

definition Put :: "string \<Rightarrow> Item \<Rightarrow> Store \<Rightarrow> Store \<times> bool" where
  "Put key incoming s =
     (case data s key of
        None \<Rightarrow> (s\<lparr>data := (data s)(key \<mapsto> incoming)\<rparr>, True)
      | Some cur \<Rightarrow>
          if sint (Version cur) < sint (Version incoming)
             \<or> (Version incoming = Version cur \<and> Origin cur < Origin incoming)
          then (s\<lparr>data := (data s)(key \<mapsto> incoming)\<rparr>, True)
          else (s, False))"

text \<open>
  The body of the loop of \<open>HardDeleteExpired\<close> at key \<open>k\<close>. A key deleted earlier in the
  sweep is not visited again; visiting it would change nothing.
\<close>

definition sweep_key :: "time \<Rightarrow> duration \<Rightarrow> string \<Rightarrow> Store \<Rightarrow> Store" where
  "sweep_key now tombstoneTTL k s =
     (case data s k of
        None \<Rightarrow> s
      | Some v \<Rightarrow>
          if Tombstone v \<and> sint tombstoneTTL < sint (Sub now (time_Unix0 (Version v)))
          then s\<lparr>data := (data s)(k := None)\<rparr>
          else if \<not> Tombstone v \<and> expired v now
          then s\<lparr>data := (data s)(k := None)\<rparr>
          else s)"

text \<open>
  \<open>HardDeleteExpired\<close>: \<open>ks\<close> is the order in which \<open>range\<close> yields the keys of the map,
  which Go leaves unspecified.
\<close>

definition HardDeleteExpired :: "string list \<Rightarrow> time \<Rightarrow> duration \<Rightarrow> Store \<Rightarrow> Store" where
  "HardDeleteExpired ks now tombstoneTTL s = fold (sweep_key now tombstoneTTL) ks s"

subsection \<open>Node and peer registry\<close>

text \<open>
  The fields of \<open>Node\<close> that the operations read or write; the HTTP client and the
  mutex are left out. \<open>peers\<close> is the key set of \<open>map[string]struct{}\<close>; a key missing
  from \<open>failCounts\<close> reads as 0. The counters of type \<open>int\<close> (failures, acknowledgements,
  numbers of peers) are integers here: they grow by one per probe or delivery and stay
  far from the 64-bit range.
\<close>

record Node =
  ID :: string
  Addr :: string
  store :: Store
  peers :: "string fset"
  failCounts :: "string \<rightharpoonup> int"
  maxFailures :: int
  ReqTimeout :: duration
  HBInterval :: duration
  JanitorEvery :: duration
  TombstoneTTL :: duration

definition activePeers :: "Node \<Rightarrow> string fset" where
  "activePeers n = peers n"

definition bumpFail :: "string \<Rightarrow> bool \<Rightarrow> Node \<Rightarrow> Node" where
  "bumpFail p ok n =
     (if ok then n\<lparr>failCounts := (failCounts n)(p \<mapsto> 0)\<rparr>
      else
        let c = (case failCounts n p of None \<Rightarrow> 0 | Some c \<Rightarrow> c) + 1;
            n1 = n\<lparr>failCounts := (failCounts n)(p \<mapsto> c)\<rparr>
        in if maxFailures n1 \<le> c then n1\<lparr>peers := peers n1 |-| {|p|}\<rparr> else n1)"

subsection \<open>Replication engine\<close>

datatype rep_error =
    NoPeersAvailable
  | TimeoutWaiting int int int
  | ClientError string
  | StatusError int

text \<open>What \<open>n.client.Do(req)\<close> gives for one peer: an error, or a response with a status code.\<close>

datatype post_result = PostFailed string | PostStatus int

text \<open>The value a delivery goroutine sends on the channel: \<open>res{ok, err}\<close>.\<close>

type_synonym res = "bool \<times> rep_error option"

text \<open>
  The body of one delivery goroutine, once its request has completed: the peer's health
  is recorded, then the result is sent. \<open>StatusCode/100 == 2\<close> holds for the codes 200
  to 299 under truncating as under flooring division.
\<close>

definition deliver_res :: "post_result \<Rightarrow> res" where
  "deliver_res r =
     (case r of
        PostFailed e \<Rightarrow> (False, Some (ClientError e))
      | PostStatus c \<Rightarrow> if c div 100 = 2 then (True, None) else (False, Some (StatusError c)))"

definition deliver :: "string \<times> post_result \<Rightarrow> Node \<Rightarrow> Node" where
  "deliver a n = bumpFail (fst a) (fst (deliver_res (snd a))) n"

text \<open>The target of \<open>Replicate\<close>: the number of acknowledgements to wait for.\<close>

definition ackTarget :: "int \<Rightarrow> bool \<Rightarrow> int \<Rightarrow> int" where
  "ackTarget mn full tot =
     (let target = mn;
          target = (if full then tot else target);
          target = (if target < 0 then 0 else target);
          target = (if tot < target then tot else target)
      in target)"

text \<open>
  The collecting loop \<open>for acked < target { select ... }\<close>. The list holds the results
  the loop receives from the channel, in order, before \<open>ctx.Done()\<close> is selected; when
  it is used up and the target is not reached, the deadline branch runs. The loop
  returns \<open>acked\<close> and the error.
\<close>

fun collect :: "int \<Rightarrow> int \<Rightarrow> int \<Rightarrow> rep_error option \<Rightarrow> res list \<Rightarrow> int \<times> rep_error option" where
  "collect target tot acked firstErr [] =
     (if acked < target
      then (acked, Some (case firstErr of None \<Rightarrow> TimeoutWaiting target tot acked | Some e \<Rightarrow> e))
      else (acked, firstErr))"
| "collect target tot acked firstErr (r # rs) =
     (if acked < target
      then (if fst r then collect target tot (acked + 1) firstErr rs
            else collect target tot acked (if firstErr = None then snd r else firstErr) rs)
      else (acked, firstErr))"

text \<open>
  \<open>Replicate\<close>. The network is the list \<open>arrivals\<close>: the deliveries that complete before
  the call returns, each with its peer, in the order in which their results reach the
  channel. The call returns the node (peer health recorded for these deliveries),
  \<open>(acked, total, err)\<close> and the set of posts it dispatched, a peer paired with the message.
  Deliveries that complete later update peer health after the call and are not part of it.
\<close>

definition Replicate ::
  "Node \<Rightarrow> SyncMsg \<Rightarrow> int \<Rightarrow> bool \<Rightarrow> (string \<times> post_result) list
     \<Rightarrow> Node \<times> (int \<times> int \<times> rep_error option) \<times> (string \<times> SyncMsg) fset" where
  "Replicate n msg mn full arrivals =
     (let ps = activePeers n;
          tot = int (fcard ps)
      in if tot = 0
         then (if 0 < mn \<or> full then (n, (0, 0, Some NoPeersAvailable), {||})
               else (n, (0, 0, None), {||}))
         else
           let target = ackTarget mn full tot;
               sent = (\<lambda>p. (p, msg)) |`| ps;
               n' = fold deliver arrivals n;
               (acked, err) = collect target tot 0 None (map (deliver_res \<circ> snd) arrivals)
           in (n', (acked, tot, err), sent))"

subsection \<open>HTTP handlers\<close>

datatype body =
    NoBody
  | Raw bytes
  | ErrorText string
  | ReplicationError rep_error int int

record response =
  status :: int
  rbody :: body
  x_replicated :: "(int \<times> int) option"

definition respond :: "int \<Rightarrow> body \<Rightarrow> response" where
  "respond code b = \<lparr>status = code, rbody = b, x_replicated = None\<rparr>"

definition trimPrefix :: "string \<Rightarrow> string \<Rightarrow> string" where
  "trimPrefix s pre = (if take (length pre) s = pre then drop (length pre) s else s)"

text \<open>
  \<open>keyFromPath\<close>: \<open>parts[0]\<close> of \<open>SplitN(.., "/", 2)\<close> is the text before the first slash,
  or all of it when there is none.
\<close>

definition keyFromPath :: "string \<Rightarrow> string + string" where
  "keyFromPath path =
     (let part0 = takeWhile (\<lambda>c. c \<noteq> CHR ''/'') (trimPrefix path ''/kv/'')
      in if part0 = [] then Inl ''missing key'' else Inr part0)"

text \<open>\<open>handleGet\<close>; \<open>now\<close> is the reading of \<open>time.Now()\<close>. The node is not changed.\<close>

definition handleGet :: "Node \<Rightarrow> string \<Rightarrow> time \<Rightarrow> response" where
  "handleGet n path now =
     (case keyFromPath path of
        Inl e \<Rightarrow> respond 400 (ErrorText e)
      | Inr key \<Rightarrow>
          (case Get (store n) key of
             None \<Rightarrow> respond 404 (ErrorText ''404 page not found'')
           | Some it \<Rightarrow>
               if Tombstone it \<or> expired it now
               then respond 404 (ErrorText ''404 page not found'')
               else respond 200 (Raw (Value it))))"

text \<open>
  A client write as the handlers see it. \<open>req_body\<close> is what \<open>io.ReadAll\<close> returns (\<open>None\<close>:
  an error); \<open>q_ttl\<close> is the result of \<open>parseDurationQS\<close> on the \<open>ttl\<close> parameter (\<open>None\<close>:
  an error); \<open>q_min\<close> is the value of \<open>strconv.Atoi\<close> on the \<open>min\<close> parameter (\<open>None\<close>: the
  parameter is empty or does not parse); \<open>q_full\<close> is the \<open>full\<close> parameter as sent.
  \<open>clock\<close> and \<open>clock2\<close> are the two readings of \<open>time.Now()\<close>; \<open>net\<close> is the network of
  \<open>Replicate\<close>.
\<close>

record request =
  req_path :: string
  req_body :: "bytes option"
  q_ttl :: "duration option"
  q_min :: "int option"
  q_full :: string
  clock :: time
  clock2 :: time
  net :: "(string \<times> post_result) list"

definition minRep :: "request \<Rightarrow> int" where
  "minRep r = (case q_min r of None \<Rightarrow> 0 | Some v \<Rightarrow> if 0 \<le> v then v else 0)"

definition ptrTimeOrNil :: "time \<Rightarrow> time option" where
  "ptrTimeOrNil t = (if IsZero t then None else Some t)"

text \<open>The handlers return the node, the response and the posts dispatched to peers.\<close>

definition handlePut :: "Node \<Rightarrow> request \<Rightarrow> Node \<times> response \<times> (string \<times> SyncMsg) fset" where
  "handlePut n r =
     (case keyFromPath (req_path r) of
        Inl e \<Rightarrow> (n, respond 400 (ErrorText e), {||})
      | Inr key \<Rightarrow>
     (case req_body r of
        None \<Rightarrow> (n, respond 400 (ErrorText ''read body error''), {||})
      | Some b \<Rightarrow>
     (case q_ttl r of
        None \<Rightarrow> (n, respond 400 (ErrorText ''bad ttl''), {||})
      | Some ttl \<Rightarrow>
          let full = (q_full r = ''true'');
              version = UnixNano (clock r);
              item = Item0\<lparr>Value := b, Version := version, Origin := ID n\<rparr>;
              item = (if 0 < sint ttl then item\<lparr>ExpiresAt := Add (clock2 r) ttl\<rparr> else item);
              (s', applied) = Put key item (store n)
          in if \<not> applied
             then (n\<lparr>store := s'\<rparr>, respond 409 (ErrorText ''write lost to newer version''), {||})
             else
               let (n', (acked, tot, err), sent) =
                     Replicate (n\<lparr>store := s'\<rparr>)
                       \<lparr>Op = ''set'', Key = key, MValue = b,
                        MExpiresAt = ptrTimeOrNil (ExpiresAt item),
                        MVersion = version, MOrigin = ID n\<rparr>
                       (minRep r) full (net r)
               in (case err of
                     Some e \<Rightarrow> (n', respond 502 (ReplicationError e acked tot), sent)
                   | None \<Rightarrow>
                       (n', \<lparr>status = 201, rbody = NoBody, x_replicated = Some (acked, tot)\<rparr>, sent)))))"

definition handleDelete :: "Node \<Rightarrow> request \<Rightarrow> Node \<times> response \<times> (string \<times> SyncMsg) fset" where
  "handleDelete n r =
     (case keyFromPath (req_path r) of
        Inl e \<Rightarrow> (n, respond 400 (ErrorText e), {||})
      | Inr key \<Rightarrow>
          let full = (q_full r = ''true'');
              version = UnixNano (clock r);
              it = Item0\<lparr>Version := version, Origin := ID n, Tombstone := True\<rparr>;
              (s', applied) = Put key it (store n);
              (n', (acked, tot, err), sent) =
                Replicate (n\<lparr>store := s'\<rparr>)
                  \<lparr>Op = ''del'', Key = key, MValue = [], MExpiresAt = None,
                   MVersion = version, MOrigin = ID n\<rparr>
                  (minRep r) full (net r)
          in (case err of
                Some e \<Rightarrow> (n', respond 502 (ReplicationError e acked tot), sent)
              | None \<Rightarrow>
                  (n', \<lparr>status = 204, rbody = NoBody, x_replicated = Some (acked, tot)\<rparr>, sent)))"

text \<open>\<open>handleSync\<close>; \<open>decoded\<close> is what the JSON decoder gives (\<open>None\<close>: an error).\<close>

definition handleSync :: "Node \<Rightarrow> SyncMsg option \<Rightarrow> Node \<times> response \<times> (string \<times> SyncMsg) fset" where
  "handleSync n decoded =
     (case decoded of
        None \<Rightarrow> (n, respond 400 (ErrorText ''bad json''), {||})
      | Some msg \<Rightarrow>
          if Op msg = ''set'' then
            let item = Item0\<lparr>Value := MValue msg, Version := MVersion msg, Origin := MOrigin msg\<rparr>;
                item = (case MExpiresAt msg of None \<Rightarrow> item | Some t \<Rightarrow> item\<lparr>ExpiresAt := t\<rparr>)
            in (n\<lparr>store := fst (Put (Key msg) item (store n))\<rparr>, respond 204 NoBody, {||})
          else if Op msg = ''del'' then
            (n\<lparr>store := fst (Put (Key msg)
                   (Item0\<lparr>Version := MVersion msg, Origin := MOrigin msg, Tombstone := True\<rparr>)
                   (store n))\<rparr>,
             respond 204 NoBody, {||})
          else (n, respond 400 (ErrorText ''unknown op''), {||}))"

subsection \<open>The LWW order of the specification\<close>

text \<open>
  The pair \<open>(version, origin)\<close> of an entry, ordered lexicographically: higher version
  wins; on equal version the lexicographically greater origin wins.
\<close>

definition lww :: "Item \<Rightarrow> int \<times> string" where
  "lww it = (sint (Version it), Origin it)"

text \<open>Of two writes, the one with the greater pair (the first when the pairs are equal).\<close>

definition lww_max :: "Item \<Rightarrow> Item \<Rightarrow> Item" where
  "lww_max a b = (if lww a < lww b then b else a)"

subsection \<open>The sweep as the specification words it\<close>

text \<open>
  A tombstone is due when its version timestamp is older than \<open>tombstoneTTL\<close> before
  \<open>now\<close>; an entry that is not a tombstone is due when it has an expiry and that is in
  the past.
\<close>

definition older_than_ttl :: "time \<Rightarrow> duration \<Rightarrow> Item \<Rightarrow> bool" where
  "older_than_ttl now tombstoneTTL v = (time_Unix0 (Version v) < now - sint tombstoneTTL)"

definition sweep_spec :: "time \<Rightarrow> duration \<Rightarrow> Item \<Rightarrow> bool" where
  "sweep_spec now tombstoneTTL v =
     ((Tombstone v \<and> older_than_ttl now tombstoneTTL v)
      \<or> (\<not> Tombstone v \<and> \<not> IsZero (ExpiresAt v) \<and> ExpiresAt v < now))"

text \<open>
  The same with the age of a tombstone measured as a \<open>Duration\<close>: an age beyond the
  largest duration counts as the largest duration.
\<close>

definition swept :: "time \<Rightarrow> duration \<Rightarrow> Item \<Rightarrow> bool" where
  "swept now tombstoneTTL v =
     ((Tombstone v \<and> sint tombstoneTTL < min maxDuration (now - time_Unix0 (Version v)))
      \<or> (\<not> Tombstone v \<and> \<not> IsZero (ExpiresAt v) \<and> ExpiresAt v < now))"

subsection \<open>The history of a node's store\<close>

text \<open>
  A store is written by \<open>Put\<close> (from \<open>handlePut\<close>, \<open>handleDelete\<close> and \<open>handleSync\<close>) and by
  the janitor's \<open>HardDeleteExpired\<close>; the lock serialises the calls. A node starts from
  \<open>NewStore\<close>.
\<close>

datatype store_op = OpPut string Item | OpSweep "string list" time duration

fun apply_op :: "store_op \<Rightarrow> Store \<Rightarrow> Store" where
  "apply_op (OpPut key it) s = fst (Put key it s)"
| "apply_op (OpSweep ks now tombstoneTTL) s = HardDeleteExpired ks now tombstoneTTL s"

definition run :: "store_op list \<Rightarrow> Store" where
  "run h = fold apply_op h NewStore"

text \<open>The entry of \<open>key\<close>, if there is one, is \<open>m\<close> or has a smaller pair than \<open>m\<close>.\<close>

definition below :: "Item \<Rightarrow> string \<Rightarrow> Store \<Rightarrow> bool" where
  "below m key s = (case data s key of None \<Rightarrow> True | Some e \<Rightarrow> e = m \<or> lww e < lww m)"

section \<open>Properties of the store\<close>

lemma lww_less_iff:
  "lww cur < lww incoming \<longleftrightarrow>
     sint (Version cur) < sint (Version incoming)
     \<or> (Version incoming = Version cur \<and> Origin cur < Origin incoming)"
  by (auto simp: lww_def less_prod_def word_eq_iff_signed [where 'a = int])

lemma Put_None: "data s key = None \<Longrightarrow> Put key incoming s = (s\<lparr>data := (data s)(key \<mapsto> incoming)\<rparr>, True)"
  by (simp add: Put_def)

lemma Put_Some:
  "data s key = Some cur \<Longrightarrow>
   Put key incoming s =
     (if lww cur < lww incoming then (s\<lparr>data := (data s)(key \<mapsto> incoming)\<rparr>, True) else (s, False))"
  by (simp add: Put_def lww_less_iff)

text \<open>
  C3. \<open>Put\<close> stores the incoming item and returns true when the key has no entry;
  when it has one, it stores the incoming item and returns true exactly when the pair
  (version, origin) of the incoming item is strictly greater than that of the current
  entry, and otherwise leaves the store as it is and returns false. Putting an item
  identical to the stored one changes nothing and returns false.
\<close>

theorem Put_last_write_wins:
  "Put key incoming s =
     (case data s key of
        None \<Rightarrow> (s\<lparr>data := (data s)(key \<mapsto> incoming)\<rparr>, True)
      | Some cur \<Rightarrow>
          if lww cur < lww incoming
          then (s\<lparr>data := (data s)(key \<mapsto> incoming)\<rparr>, True)
          else (s, False))
   \<and> (data s key = Some incoming \<longrightarrow> Put key incoming s = (s, False))"
  by (auto simp: Put_None Put_Some split: option.splits)

theorem Put_last_write_wins_witness:
  "data \<lparr>data = [''k'' \<mapsto> Item0\<lparr>Value := [97], Version := 1, Origin := ''A''\<rparr>]\<rparr> ''k''
     = Some (Item0\<lparr>Value := [97], Version := 1, Origin := ''A''\<rparr>)
   \<and> Put ''k'' (Item0\<lparr>Value := [97], Version := 1, Origin := ''A''\<rparr>)
        \<lparr>data = [''k'' \<mapsto> Item0\<lparr>Value := [97], Version := 1, Origin := ''A''\<rparr>]\<rparr>
     = (\<lparr>data = [''k'' \<mapsto> Item0\<lparr>Value := [97], Version := 1, Origin := ''A''\<rparr>]\<rparr>, False)"
  using Put_last_write_wins [of "''k''" "Item0\<lparr>Value := [97], Version := 1, Origin := ''A''\<rparr>"
      "\<lparr>data = [''k'' \<mapsto> Item0\<lparr>Value := [97], Version := 1, Origin := ''A''\<rparr>]\<rparr>"]
  by simp

lemma Put_data_other: "k \<noteq> key \<Longrightarrow> data (fst (Put key it s)) k = data s k"
  by (simp add: Put_def split: option.splits)

lemma Put_data_key:
  "data (fst (Put key it s)) key =
     (case data s key of None \<Rightarrow> Some it | Some c \<Rightarrow> if lww c < lww it then Some it else Some c)"
  by (simp add: Put_None Put_Some split: option.splits)

lemma Store_eqI: "data s = data t \<Longrightarrow> (s::Store) = t"
  by simp

text \<open>
  C4, as stated: two writes to a key leave the same store in either order. It fails for
  two different items that carry the same pair (version, origin): the first one applied
  stays.
\<close>

theorem Put_order_counterexample:
  "fst (Put ''k'' (Item0\<lparr>Value := [98], Version := 1, Origin := ''A''\<rparr>)
         (fst (Put ''k'' (Item0\<lparr>Value := [97], Version := 1, Origin := ''A''\<rparr>) NewStore)))
   \<noteq> fst (Put ''k'' (Item0\<lparr>Value := [97], Version := 1, Origin := ''A''\<rparr>)
         (fst (Put ''k'' (Item0\<lparr>Value := [98], Version := 1, Origin := ''A''\<rparr>) NewStore)))"
proof
  assume "fst (Put ''k'' (Item0\<lparr>Value := [98], Version := 1, Origin := ''A''\<rparr>)
         (fst (Put ''k'' (Item0\<lparr>Value := [97], Version := 1, Origin := ''A''\<rparr>) NewStore)))
   = fst (Put ''k'' (Item0\<lparr>Value := [97], Version := 1, Origin := ''A''\<rparr>)
         (fst (Put ''k'' (Item0\<lparr>Value := [98], Version := 1, Origin := ''A''\<rparr>) NewStore)))"
  then have "data (fst (Put ''k'' (Item0\<lparr>Value := [98], Version := 1, Origin := ''A''\<rparr>)
         (fst (Put ''k'' (Item0\<lparr>Value := [97], Version := 1, Origin := ''A''\<rparr>) NewStore)))) ''k''
   = data (fst (Put ''k'' (Item0\<lparr>Value := [97], Version := 1, Origin := ''A''\<rparr>)
         (fst (Put ''k'' (Item0\<lparr>Value := [98], Version := 1, Origin := ''A''\<rparr>) NewStore)))) ''k''"
    by simp
  then show False
    by (simp add: Put_data_key NewStore_def lww_def Item0_def)
qed

text \<open>
  C4, amended. For two writes to a key whose pairs (version, origin) differ, or which
  are the same item, the two orders of application give the same store, and the entry
  that survives for the key is the one with the greatest pair among the two writes and
  the entry stored before, which stays when nothing is greater.
\<close>

theorem Put_commutes_distinct:
  assumes "lww a \<noteq> lww b \<or> a = b"
  shows "fst (Put key b (fst (Put key a s))) = fst (Put key a (fst (Put key b s)))
     \<and> data (fst (Put key b (fst (Put key a s)))) key =
         Some (case data s key of
                 None \<Rightarrow> lww_max a b
               | Some c \<Rightarrow> if lww c < lww (lww_max a b) then lww_max a b else c)"
proof
  have "data (fst (Put key b (fst (Put key a s)))) k = data (fst (Put key a (fst (Put key b s)))) k" for k
  proof (cases "k = key")
    case True
    with assms show ?thesis
      by (auto simp: Put_data_key split: option.splits)
  next
    case False
    then show ?thesis by (simp add: Put_data_other)
  qed
  then show "fst (Put key b (fst (Put key a s))) = fst (Put key a (fst (Put key b s)))"
    by (intro Store_eqI ext)
next
  from assms show "data (fst (Put key b (fst (Put key a s)))) key =
         Some (case data s key of
                 None \<Rightarrow> lww_max a b
               | Some c \<Rightarrow> if lww c < lww (lww_max a b) then lww_max a b else c)"
    by (auto simp: Put_data_key lww_max_def split: option.splits)
qed


theorem Put_commutes_distinct_witness:
  "lww (Item0\<lparr>Value := [97], Version := 1, Origin := ''A''\<rparr>)
      \<noteq> lww (Item0\<lparr>Value := [99], Version := 1, Origin := ''Z''\<rparr>)
   \<and> fst (Put ''k'' (Item0\<lparr>Value := [99], Version := 1, Origin := ''Z''\<rparr>)
        (fst (Put ''k'' (Item0\<lparr>Value := [97], Version := 1, Origin := ''A''\<rparr>) NewStore)))
     = fst (Put ''k'' (Item0\<lparr>Value := [97], Version := 1, Origin := ''A''\<rparr>)
        (fst (Put ''k'' (Item0\<lparr>Value := [99], Version := 1, Origin := ''Z''\<rparr>) NewStore)))
   \<and> data (fst (Put ''k'' (Item0\<lparr>Value := [99], Version := 1, Origin := ''Z''\<rparr>)
        (fst (Put ''k'' (Item0\<lparr>Value := [97], Version := 1, Origin := ''A''\<rparr>) NewStore)))) ''k''
     = Some (Item0\<lparr>Value := [99], Version := 1, Origin := ''Z''\<rparr>)"
proof -
  have h: "lww (Item0\<lparr>Value := [97], Version := 1, Origin := ''A''\<rparr>)
      \<noteq> lww (Item0\<lparr>Value := [99], Version := 1, Origin := ''Z''\<rparr>)
    \<or> Item0\<lparr>Value := [97], Version := 1, Origin := ''A''\<rparr>
      = Item0\<lparr>Value := [99], Version := 1, Origin := ''Z''\<rparr>"
    by (simp add: lww_def)
  note t = Put_commutes_distinct [OF h, of "''k''" NewStore]
  have v: "Some (case data NewStore ''k'' of
                 None \<Rightarrow> lww_max (Item0\<lparr>Value := [97], Version := 1, Origin := ''A''\<rparr>)
                           (Item0\<lparr>Value := [99], Version := 1, Origin := ''Z''\<rparr>)
               | Some c \<Rightarrow>
                   if lww c < lww (lww_max (Item0\<lparr>Value := [97], Version := 1, Origin := ''A''\<rparr>)
                                    (Item0\<lparr>Value := [99], Version := 1, Origin := ''Z''\<rparr>))
                   then lww_max (Item0\<lparr>Value := [97], Version := 1, Origin := ''A''\<rparr>)
                          (Item0\<lparr>Value := [99], Version := 1, Origin := ''Z''\<rparr>)
                   else c)
           = Some (Item0\<lparr>Value := [99], Version := 1, Origin := ''Z''\<rparr>)"
    by (simp add: NewStore_def lww_max_def lww_def)
  show ?thesis
  proof (intro conjI)
    show "lww (Item0\<lparr>Value := [97], Version := 1, Origin := ''A''\<rparr>)
        \<noteq> lww (Item0\<lparr>Value := [99], Version := 1, Origin := ''Z''\<rparr>)"
      by (simp add: lww_def)
    show "fst (Put ''k'' (Item0\<lparr>Value := [99], Version := 1, Origin := ''Z''\<rparr>)
          (fst (Put ''k'' (Item0\<lparr>Value := [97], Version := 1, Origin := ''A''\<rparr>) NewStore)))
       = fst (Put ''k'' (Item0\<lparr>Value := [97], Version := 1, Origin := ''A''\<rparr>)
          (fst (Put ''k'' (Item0\<lparr>Value := [99], Version := 1, Origin := ''Z''\<rparr>) NewStore)))"
      by (rule t [THEN conjunct1])
    show "data (fst (Put ''k'' (Item0\<lparr>Value := [99], Version := 1, Origin := ''Z''\<rparr>)
          (fst (Put ''k'' (Item0\<lparr>Value := [97], Version := 1, Origin := ''A''\<rparr>) NewStore)))) ''k''
       = Some (Item0\<lparr>Value := [99], Version := 1, Origin := ''Z''\<rparr>)"
      by (rule trans [OF t [THEN conjunct2] v])
  qed
qed

section \<open>Properties of the sweep\<close>

lemma sint_Sub: "sint (Sub t u) = max minDuration (min maxDuration (t - u))"
proof -
  have a: "sint (word_of_int k :: 64 word) = k" if "- (2 ^ 63) \<le> k" "k < 2 ^ 63" for k :: int
    using that by (simp add: sint_sbintrunc' signed_take_bit_int_eq_self)
  show ?thesis
    by (auto simp add: Sub_def Let_def maxDuration_def minDuration_def a simp del: of_int_diff)
qed

lemma sint_duration_bounds: "minDuration \<le> sint (d :: 64 word) \<and> sint d \<le> maxDuration"
  using sint_ge [of d] sint_lt [of d] by (simp add: minDuration_def maxDuration_def)

lemma sweep_cond:
  "(Tombstone v \<and> sint tombstoneTTL < sint (Sub now (time_Unix0 (Version v)))
    \<or> \<not> Tombstone v \<and> expired v now) = swept now tombstoneTTL v"
  using sint_duration_bounds [of tombstoneTTL]
  by (auto simp: swept_def sint_Sub expired_def After_def)

lemma sweep_key_data:
  "data (sweep_key now tombstoneTTL k s) k' =
     (if k' = k
      then (case data s k of None \<Rightarrow> None | Some v \<Rightarrow> if swept now tombstoneTTL v then None else Some v)
      else data s k')"
  by (auto simp: sweep_key_def sweep_cond [symmetric] split: option.splits)

lemma fold_sweep_key_data:
  "data (fold (sweep_key now tombstoneTTL) ks s) k =
     (if k \<in> set ks
      then (case data s k of None \<Rightarrow> None | Some v \<Rightarrow> if swept now tombstoneTTL v then None else Some v)
      else data s k)"
  by (induction ks arbitrary: s) (auto simp: sweep_key_data split: option.splits)

lemma HardDeleteExpired_data:
  "data (HardDeleteExpired ks now tombstoneTTL s) k =
     (if k \<in> set ks
      then (case data s k of None \<Rightarrow> None | Some v \<Rightarrow> if swept now tombstoneTTL v then None else Some v)
      else data s k)"
  by (simp add: HardDeleteExpired_def fold_sweep_key_data)

lemma swept_iff_spec:
  "sint tombstoneTTL < maxDuration \<Longrightarrow> swept now tombstoneTTL v = sweep_spec now tombstoneTTL v"
  by (auto simp: swept_def sweep_spec_def older_than_ttl_def)

text \<open>
  C6, as stated: the sweep removes every tombstone whose version timestamp is older than
  \<open>tombstoneTTL\<close> before \<open>now\<close>. It fails when \<open>tombstoneTTL\<close> is the largest duration:
  a tombstone written in 1677 is older than that before an instant in 2026, its age is
  cut to the largest duration, which is not greater than \<open>tombstoneTTL\<close>, and it stays.
\<close>

theorem HardDeleteExpired_counterexample:
  "sweep_spec 1790000000000000000 9223372036854775807
     (Item0\<lparr>Version := - 9223372036854775808, Tombstone := True\<rparr>)
   \<and> data (HardDeleteExpired [''del''] 1790000000000000000 9223372036854775807
        \<lparr>data = [''del'' \<mapsto> Item0\<lparr>Version := - 9223372036854775808, Tombstone := True\<rparr>]\<rparr>) ''del''
     = Some (Item0\<lparr>Version := - 9223372036854775808, Tombstone := True\<rparr>)"
  by (simp add: sweep_spec_def older_than_ttl_def HardDeleteExpired_def sweep_key_def Sub_def
      time_Unix0_def maxDuration_def minDuration_def expired_def Item0_def)

text \<open>
  C6, amended. When the sweep visits the keys of the map, it removes exactly the
  tombstones whose age, \<open>now\<close> minus the version timestamp cut to the largest duration,
  is greater than \<open>tombstoneTTL\<close>, and the entries that are not tombstones and whose
  expiry is in the past; every other entry stays as it is. For every \<open>tombstoneTTL\<close>
  below the largest duration these are the tombstones older than \<open>tombstoneTTL\<close> before
  \<open>now\<close>.
\<close>

theorem HardDeleteExpired_saturating:
  assumes "set ks = dom (data s)"
  shows "data (HardDeleteExpired ks now tombstoneTTL s) k =
           (case data s k of
              None \<Rightarrow> None
            | Some v \<Rightarrow> if swept now tombstoneTTL v then None else Some v)
         \<and> (sint tombstoneTTL < maxDuration \<longrightarrow>
              data (HardDeleteExpired ks now tombstoneTTL s) k =
                (case data s k of
                   None \<Rightarrow> None
                 | Some v \<Rightarrow> if sweep_spec now tombstoneTTL v then None else Some v))"
proof -
  have "data (HardDeleteExpired ks now tombstoneTTL s) k =
           (case data s k of
              None \<Rightarrow> None
            | Some v \<Rightarrow> if swept now tombstoneTTL v then None else Some v)"
    using assms by (auto simp: HardDeleteExpired_data split: option.splits)
  then show ?thesis
    by (auto simp: swept_iff_spec split: option.splits)
qed

theorem HardDeleteExpired_saturating_witness:
  "set [''del'', ''ttl''] =
     dom (data \<lparr>data = [''del'' \<mapsto> Item0\<lparr>Version := 1000, Tombstone := True\<rparr>,
                        ''ttl'' \<mapsto> Item0\<lparr>Value := [118], ExpiresAt := 5000, Version := 1\<rparr>]\<rparr>)
   \<and> data (HardDeleteExpired [''del'', ''ttl''] 600000001000 60000000000
        \<lparr>data = [''del'' \<mapsto> Item0\<lparr>Version := 1000, Tombstone := True\<rparr>,
                 ''ttl'' \<mapsto> Item0\<lparr>Value := [118], ExpiresAt := 5000, Version := 1\<rparr>]\<rparr>) ''del'' = None
   \<and> data (HardDeleteExpired [''del'', ''ttl''] 600000001000 18000000000000
        \<lparr>data = [''del'' \<mapsto> Item0\<lparr>Version := 1000, Tombstone := True\<rparr>,
                 ''ttl'' \<mapsto> Item0\<lparr>Value := [118], ExpiresAt := 5000, Version := 1\<rparr>]\<rparr>) ''del''
       = Some (Item0\<lparr>Version := 1000, Tombstone := True\<rparr>)"
proof -
  have d: "set [''del'', ''ttl''] =
     dom (data \<lparr>data = [''del'' \<mapsto> Item0\<lparr>Version := 1000, Tombstone := True\<rparr>,
                        ''ttl'' \<mapsto> Item0\<lparr>Value := [118], ExpiresAt := 5000, Version := 1\<rparr>]\<rparr>)"
    by auto
  show ?thesis
    using d HardDeleteExpired_saturating [OF d, of 600000001000 60000000000 "''del''"]
      HardDeleteExpired_saturating [OF d, of 600000001000 18000000000000 "''del''"]
    by (simp add: swept_def sweep_spec_def older_than_ttl_def time_Unix0_def maxDuration_def Item0_def)
qed

section \<open>Convergence of the replicas\<close>

lemma apply_op_below:
  assumes "below m key s" and "\<And>w. op = OpPut key w \<Longrightarrow> w = m \<or> lww w < lww m"
  shows "below m key (apply_op op s)"
proof (cases op)
  case (OpPut k w)
  show ?thesis
  proof (cases "k = key")
    case True
    with OpPut assms show ?thesis
      by (auto simp: below_def Put_data_key split: option.splits)
  next
    case False
    with OpPut assms(1) show ?thesis
      by (simp add: below_def Put_data_other)
  qed
next
  case (OpSweep ks now ttl)
  with assms(1) show ?thesis
    by (auto simp: below_def HardDeleteExpired_data split: option.splits)
qed

lemma fold_apply_op_below:
  assumes "\<And>w. OpPut key w \<in> set h \<Longrightarrow> w = m \<or> lww w < lww m" and "below m key s"
  shows "below m key (fold apply_op h s)"
  using assms
proof (induction h arbitrary: s)
  case Nil
  then show ?case by simp
next
  case (Cons op h)
  have "below m key (apply_op op s)"
    using Cons.prems by (intro apply_op_below) auto
  then have "below m key (fold apply_op h (apply_op op s))"
    using Cons.prems by (intro Cons.IH) auto
  then show ?case by simp
qed

lemma apply_op_holds:
  assumes "data s key = Some m"
    and "\<And>w. op = OpPut key w \<Longrightarrow> w = m \<or> lww w < lww m"
    and "\<And>ks now ttl. op = OpSweep ks now ttl \<Longrightarrow> \<not> swept now ttl m"
  shows "data (apply_op op s) key = Some m"
proof (cases op)
  case (OpPut k w)
  show ?thesis
  proof (cases "k = key")
    case True
    with OpPut assms(1,2) show ?thesis
      by (auto simp: Put_data_key)
  next
    case False
    with OpPut assms(1) show ?thesis
      by (simp add: Put_data_other)
  qed
next
  case (OpSweep ks now ttl)
  with assms(1,3) show ?thesis
    by (simp add: HardDeleteExpired_data)
qed

lemma fold_apply_op_holds:
  assumes "\<And>w. OpPut key w \<in> set h \<Longrightarrow> w = m \<or> lww w < lww m"
    and "\<And>ks now ttl. OpSweep ks now ttl \<in> set h \<Longrightarrow> \<not> swept now ttl m"
    and "data s key = Some m"
  shows "data (fold apply_op h s) key = Some m"
  using assms
proof (induction h arbitrary: s)
  case Nil
  then show ?case by simp
next
  case (Cons op h)
  have "data (apply_op op s) key = Some m"
    using Cons.prems by (intro apply_op_holds) auto
  then have "data (fold apply_op h (apply_op op s)) key = Some m"
    using Cons.prems by (intro Cons.IH) auto
  then show ?case by simp
qed

lemma run_converges:
  assumes h: "h = pre @ OpPut key m # post"
    and sweeps: "\<And>ks now ttl. OpSweep ks now ttl \<in> set post \<Longrightarrow> \<not> swept now ttl m"
    and maximal: "\<And>w. OpPut key w \<in> set h \<Longrightarrow> w = m \<or> lww w < lww m"
  shows "data (run h) key = Some m"
proof -
  have "below m key NewStore"
    by (simp add: below_def NewStore_def)
  then have "below m key (fold apply_op pre NewStore)"
    using maximal h by (intro fold_apply_op_below) auto
  then have "data (apply_op (OpPut key m) (fold apply_op pre NewStore)) key = Some m"
    by (auto simp: below_def Put_data_key split: option.splits)
  then have "data (fold apply_op post (apply_op (OpPut key m) (fold apply_op pre NewStore))) key = Some m"
    using maximal sweeps h by (intro fold_apply_op_holds) auto
  then show ?thesis
    by (simp add: run_def h)
qed

text \<open>
  C9, as stated: once the latest write has reached every node, every node holds the
  entry with the greatest pair. It fails when a sweep removes that entry and an older
  write arrives afterwards: both nodes below have received both writes, the first keeps
  the tombstone, the second has swept it and holds the older value.
\<close>

theorem lww_convergence_counterexample:
  "lww (Item0\<lparr>Value := [97], Version := 500, Origin := ''A''\<rparr>)
     < lww (Item0\<lparr>Version := 1000, Origin := ''A'', Tombstone := True\<rparr>)
   \<and> Get (run [OpPut ''k'' (Item0\<lparr>Value := [97], Version := 500, Origin := ''A''\<rparr>),
               OpPut ''k'' (Item0\<lparr>Version := 1000, Origin := ''A'', Tombstone := True\<rparr>)]) ''k''
     = Some (Item0\<lparr>Version := 1000, Origin := ''A'', Tombstone := True\<rparr>)
   \<and> Get (run [OpPut ''k'' (Item0\<lparr>Version := 1000, Origin := ''A'', Tombstone := True\<rparr>),
               OpSweep [''k''] 600000001000 300000000000,
               OpPut ''k'' (Item0\<lparr>Value := [97], Version := 500, Origin := ''A''\<rparr>)]) ''k''
     = Some (Item0\<lparr>Value := [97], Version := 500, Origin := ''A''\<rparr>)"
  by (simp add: run_def Get_def NewStore_def Put_def HardDeleteExpired_def sweep_key_def
      lww_def Sub_def time_Unix0_def maxDuration_def minDuration_def Item0_def)

text \<open>
  C9, amended. A store holds at most one entry for a key. Let \<open>m\<close> be a write to \<open>key\<close>
  whose pair (version, origin) is strictly greater than that of every other write to
  \<open>key\<close> in the cluster. Once \<open>m\<close> has reached every node, and as long as no sweep that a
  node runs after receiving \<open>m\<close> is able to remove \<open>m\<close>, every node holds exactly \<open>m\<close> for
  \<open>key\<close>, in whatever order the writes and sweeps reached it.
\<close>

theorem lww_convergence:
  assumes reached: "\<forall>h \<in> set cluster. \<exists>pre post. h = pre @ OpPut key m # post
            \<and> (\<forall>ks now ttl. OpSweep ks now ttl \<in> set post \<longrightarrow> \<not> swept now ttl m)"
    and maximal: "\<forall>h \<in> set cluster. \<forall>w. OpPut key w \<in> set h \<longrightarrow> w = m \<or> lww w < lww m"
  shows "\<forall>h \<in> set cluster. Get (run h) key = Some m"
proof
  fix h assume hc: "h \<in> set cluster"
  with reached obtain pre post where h: "h = pre @ OpPut key m # post"
    and sw: "\<forall>ks now ttl. OpSweep ks now ttl \<in> set post \<longrightarrow> \<not> swept now ttl m"
    by blast
  from maximal hc have mx: "\<And>w. OpPut key w \<in> set h \<Longrightarrow> w = m \<or> lww w < lww m"
    by blast
  show "Get (run h) key = Some m"
    unfolding Get_def using h sw mx by (intro run_converges [where pre = pre and post = post]) auto
qed

theorem lww_convergence_witness:
  "Get (run [OpPut ''k'' (Item0\<lparr>Value := [97], Version := 500, Origin := ''A''\<rparr>),
             OpPut ''k'' (Item0\<lparr>Value := [98], Version := 1000, Origin := ''B''\<rparr>)]) ''k''
     = Some (Item0\<lparr>Value := [98], Version := 1000, Origin := ''B''\<rparr>)
   \<and> Get (run [OpPut ''k'' (Item0\<lparr>Value := [98], Version := 1000, Origin := ''B''\<rparr>),
               OpSweep [''k''] 600000001000 300000000000,
               OpPut ''k'' (Item0\<lparr>Value := [97], Version := 500, Origin := ''A''\<rparr>)]) ''k''
     = Some (Item0\<lparr>Value := [98], Version := 1000, Origin := ''B''\<rparr>)"
proof -
  let ?w = "Item0\<lparr>Value := [97], Version := 500, Origin := ''A''\<rparr>"
  let ?m = "Item0\<lparr>Value := [98], Version := 1000, Origin := ''B''\<rparr>"
  let ?h1 = "[OpPut ''k'' ?w, OpPut ''k'' ?m]"
  let ?h2 = "[OpPut ''k'' ?m, OpSweep [''k''] 600000001000 300000000000, OpPut ''k'' ?w]"
  have lt: "lww ?w < lww ?m"
    by (simp add: lww_def)
  have ns: "\<not> swept 600000001000 300000000000 ?m"
    by (simp add: swept_def Item0_def IsZero_def)
  have e1: "?h1 = [OpPut ''k'' ?w] @ OpPut ''k'' ?m # []"
    by simp
  have e2: "?h2 = [] @ OpPut ''k'' ?m # [OpSweep [''k''] 600000001000 300000000000, OpPut ''k'' ?w]"
    by simp
  have reached: "\<forall>h \<in> set [?h1, ?h2]. \<exists>pre post. h = pre @ OpPut ''k'' ?m # post
            \<and> (\<forall>ks now ttl. OpSweep ks now ttl \<in> set post \<longrightarrow> \<not> swept now ttl ?m)"
  proof -
    have "\<exists>pre post. ?h1 = pre @ OpPut ''k'' ?m # post
            \<and> (\<forall>ks now ttl. OpSweep ks now ttl \<in> set post \<longrightarrow> \<not> swept now ttl ?m)"
      using e1 by (intro exI [of _ "[OpPut ''k'' ?w]"] exI [of _ "[]"]) simp
    moreover have "\<exists>pre post. ?h2 = pre @ OpPut ''k'' ?m # post
            \<and> (\<forall>ks now ttl. OpSweep ks now ttl \<in> set post \<longrightarrow> \<not> swept now ttl ?m)"
      using e2 ns
      by (intro exI [of _ "[]"] exI [of _ "[OpSweep [''k''] 600000001000 300000000000, OpPut ''k'' ?w]"])
        simp
    ultimately show ?thesis by simp
  qed
  have maximal: "\<forall>h \<in> set [?h1, ?h2]. \<forall>w. OpPut ''k'' w \<in> set h \<longrightarrow> w = ?m \<or> lww w < lww ?m"
    using lt by auto
  from lww_convergence [OF reached maximal] show ?thesis
    by simp
qed


section \<open>Properties of the replication engine\<close>

lemma ackTarget_eq:
  "0 \<le> tot \<Longrightarrow> ackTarget mn full tot = (if full then tot else max 0 (min mn tot))"
  by (auto simp: ackTarget_def Let_def)

lemma collect_zero: "collect 0 tot 0 None rs = (0, None)"
  by (cases rs) simp_all

lemma collect_le: "acked \<le> target \<Longrightarrow> fst (collect target tot acked firstErr rs) \<le> target"
  by (induction rs arbitrary: acked firstErr) auto

lemma collect_nil_reached:
  "snd (collect target tot acked firstErr rs) = None \<Longrightarrow> target \<le> fst (collect target tot acked firstErr rs)"
  by (induction rs arbitrary: acked firstErr) (auto split: if_splits)

lemma collect_keeps_error: "snd (collect target tot acked (Some e) rs) \<noteq> None"
  by (induction rs arbitrary: acked) auto

lemma collect_error_after_failure:
  "acked < target \<Longrightarrow> snd (collect target tot acked None ((False, Some e) # rs)) \<noteq> None"
  by (simp add: collect_keeps_error)

text \<open>
  C7. When the snapshot of active peers is empty and \<open>min > 0\<close> or \<open>full\<close> is requested,
  \<open>Replicate\<close> returns at once with "no peers available", \<open>acked = 0\<close> and \<open>total = 0\<close>, the
  node as it was and nothing dispatched. Otherwise the target is \<open>total\<close> when \<open>full\<close> is
  requested and \<open>min(minAcks, total)\<close>, not below 0, when it is not, and the call returns
  what the collecting loop gives for that target, with \<open>total\<close> the number of peers.
\<close>

theorem Replicate_no_peers_and_target:
  "(activePeers n = {||} \<and> (0 < mn \<or> full) \<longrightarrow>
      Replicate n msg mn full arrivals = (n, (0, 0, Some NoPeersAvailable), {||}))
   \<and> (\<not> (activePeers n = {||} \<and> (0 < mn \<or> full)) \<longrightarrow>
        ackTarget mn full (int (fcard (activePeers n)))
          = (if full then int (fcard (activePeers n))
             else max 0 (min mn (int (fcard (activePeers n)))))
        \<and> fst (snd (Replicate n msg mn full arrivals))
          = (fst (collect (if full then int (fcard (activePeers n))
                           else max 0 (min mn (int (fcard (activePeers n)))))
                   (int (fcard (activePeers n))) 0 None (map (deliver_res \<circ> snd) arrivals)),
             int (fcard (activePeers n)),
             snd (collect (if full then int (fcard (activePeers n))
                           else max 0 (min mn (int (fcard (activePeers n)))))
                   (int (fcard (activePeers n))) 0 None (map (deliver_res \<circ> snd) arrivals))))"
proof (intro conjI impI)
  assume "activePeers n = {||} \<and> (0 < mn \<or> full)"
  then show "Replicate n msg mn full arrivals = (n, (0, 0, Some NoPeersAvailable), {||})"
    by (auto simp: Replicate_def Let_def)
next
  show "ackTarget mn full (int (fcard (activePeers n)))
          = (if full then int (fcard (activePeers n))
             else max 0 (min mn (int (fcard (activePeers n)))))"
    by (simp add: ackTarget_eq)
next
  assume a: "\<not> (activePeers n = {||} \<and> (0 < mn \<or> full))"
  show "fst (snd (Replicate n msg mn full arrivals))
          = (fst (collect (if full then int (fcard (activePeers n))
                           else max 0 (min mn (int (fcard (activePeers n)))))
                   (int (fcard (activePeers n))) 0 None (map (deliver_res \<circ> snd) arrivals)),
             int (fcard (activePeers n)),
             snd (collect (if full then int (fcard (activePeers n))
                           else max 0 (min mn (int (fcard (activePeers n)))))
                   (int (fcard (activePeers n))) 0 None (map (deliver_res \<circ> snd) arrivals)))"
  proof (cases "activePeers n = {||}")
    case True
    with a have "\<not> 0 < mn" "\<not> full" by auto
    with True show ?thesis
      by (simp add: Replicate_def Let_def collect_zero max_def min_def)
  next
    case False
    then show ?thesis
      by (simp add: Replicate_def Let_def ackTarget_eq split: prod.splits)
  qed
qed

theorem Replicate_no_peers_and_target_witness:
  "activePeers
     \<lparr>ID = ''N1'', Addr = '':8081'', store = NewStore, peers = {||}, failCounts = Map.empty,
       maxFailures = 3, ReqTimeout = 4000000000, HBInterval = 5000000000,
       JanitorEvery = 2000000000, TombstoneTTL = 300000000000\<rparr> = {||}
   \<and> Replicate
       \<lparr>ID = ''N1'', Addr = '':8081'', store = NewStore, peers = {||}, failCounts = Map.empty,
       maxFailures = 3, ReqTimeout = 4000000000, HBInterval = 5000000000,
       JanitorEvery = 2000000000, TombstoneTTL = 300000000000\<rparr>
       \<lparr>Op = ''set'', Key = ''k'', MValue = [118], MExpiresAt = None, MVersion = 50, MOrigin = ''N1''\<rparr> 1 False []
     = (\<lparr>ID = ''N1'', Addr = '':8081'', store = NewStore, peers = {||}, failCounts = Map.empty,
       maxFailures = 3, ReqTimeout = 4000000000, HBInterval = 5000000000,
       JanitorEvery = 2000000000, TombstoneTTL = 300000000000\<rparr>,
        (0, 0, Some NoPeersAvailable), {||})
   \<and> fst (snd (Replicate
       \<lparr>ID = ''N1'', Addr = '':8081'', store = NewStore, peers = {|''p1'', ''p2''|}, failCounts = Map.empty,
       maxFailures = 3, ReqTimeout = 4000000000, HBInterval = 5000000000,
       JanitorEvery = 2000000000, TombstoneTTL = 300000000000\<rparr>
       \<lparr>Op = ''set'', Key = ''k'', MValue = [118], MExpiresAt = None, MVersion = 50, MOrigin = ''N1''\<rparr> 5 False [(''p1'', PostStatus 204), (''p2'', PostStatus 200)]))
     = (2, 2, None)"
  using Replicate_no_peers_and_target [of
      "\<lparr>ID = ''N1'', Addr = '':8081'', store = NewStore, peers = {||}, failCounts = Map.empty,
       maxFailures = 3, ReqTimeout = 4000000000, HBInterval = 5000000000,
       JanitorEvery = 2000000000, TombstoneTTL = 300000000000\<rparr>"
      1 False
      "\<lparr>Op = ''set'', Key = ''k'', MValue = [118], MExpiresAt = None, MVersion = 50, MOrigin = ''N1''\<rparr>" "[]"]
    Replicate_no_peers_and_target [of
      "\<lparr>ID = ''N1'', Addr = '':8081'', store = NewStore, peers = {|''p1'', ''p2''|}, failCounts = Map.empty,
       maxFailures = 3, ReqTimeout = 4000000000, HBInterval = 5000000000,
       JanitorEvery = 2000000000, TombstoneTTL = 300000000000\<rparr>"
      5 False
      "\<lparr>Op = ''set'', Key = ''k'', MValue = [118], MExpiresAt = None, MVersion = 50, MOrigin = ''N1''\<rparr>" "[(''p1'', PostStatus 204), (''p2'', PostStatus 200)]"]
  by (simp add: activePeers_def fcard_finsert_if deliver_res_def)

text \<open>
  C1. When the acknowledgements collected reach the target before the deadline,
  \<open>Replicate\<close> is to return a nil error, also when a delivery has failed before. The
  code returns \<open>firstErr\<close> on that path: with two peers and \<open>min = 1\<close>, a failed delivery
  followed by an acknowledgement meets the target of 1 and the call returns the error of
  the failed delivery.
\<close>

theorem Replicate_error_after_target_met:
  "ackTarget 1 False 2 = 1
   \<and> Replicate
       \<lparr>ID = ''N1'', Addr = '':8081'', store = NewStore, peers = {|''p1'', ''p2''|}, failCounts = Map.empty,
       maxFailures = 3, ReqTimeout = 4000000000, HBInterval = 5000000000,
       JanitorEvery = 2000000000, TombstoneTTL = 300000000000\<rparr>
       \<lparr>Op = ''set'', Key = ''k'', MValue = [118], MExpiresAt = None, MVersion = 50, MOrigin = ''N1''\<rparr> 1 False
       [(''p1'', PostFailed ''connection refused''), (''p2'', PostStatus 204)]
     = (\<lparr>ID = ''N1'', Addr = '':8081'', store = NewStore, peers = {|''p1'', ''p2''|}, failCounts = [''p1'' \<mapsto> 1, ''p2'' \<mapsto> 0],
       maxFailures = 3, ReqTimeout = 4000000000, HBInterval = 5000000000,
       JanitorEvery = 2000000000, TombstoneTTL = 300000000000\<rparr>,
        (1, 2, Some (ClientError ''connection refused'')),
        {|(''p1'', \<lparr>Op = ''set'', Key = ''k'', MValue = [118], MExpiresAt = None, MVersion = 50, MOrigin = ''N1''\<rparr>),
          (''p2'', \<lparr>Op = ''set'', Key = ''k'', MValue = [118], MExpiresAt = None, MVersion = 50, MOrigin = ''N1''\<rparr>)|})"
  by (simp add: ackTarget_def Replicate_def activePeers_def fcard_finsert_if fcard_fempty deliver_def
      deliver_res_def bumpFail_def)

section \<open>Properties of the handlers\<close>

lemma Put_not_applied: "Put key it s = (s', False) \<Longrightarrow> s' = s"
  by (auto simp: Put_def split: option.splits if_splits)

lemma handlePut_stale_no_replication:
  assumes "keyFromPath (req_path r) = Inr key" and "req_body r = Some b" and "q_ttl r = Some ttl"
    and "snd (Put key
           (if 0 < sint ttl
            then Item0\<lparr>Value := b, Version := UnixNano (clock r), Origin := ID n,
                       ExpiresAt := Add (clock2 r) ttl\<rparr>
            else Item0\<lparr>Value := b, Version := UnixNano (clock r), Origin := ID n\<rparr>)
           (store n)) = False"
  shows "handlePut n r =
           (n, \<lparr>status = 409, rbody = ErrorText ''write lost to newer version'',
                 x_replicated = None\<rparr>, {||})"
  using assms
  by (auto simp: handlePut_def respond_def Let_def split: prod.splits if_splits
      dest: Put_not_applied)

lemma fold_deliver_store: "store (fold deliver arrivals m) = store m"
  by (induction arrivals arbitrary: m) (auto simp: deliver_def bumpFail_def Let_def)

lemma Replicate_store: "Replicate m msg mn full arrivals = (m', x) \<Longrightarrow> store m' = store m"
  by (auto simp: Replicate_def Let_def fold_deliver_store split: prod.splits if_splits)

lemma handleDelete_absent_key:
  assumes "keyFromPath (req_path r) = Inr key" and "data (store n) key = None"
  shows "data (store (fst (handleDelete n r))) key
           = Some (Item0\<lparr>Version := UnixNano (clock r), Origin := ID n, Tombstone := True\<rparr>)"
  using assms
  by (auto simp: handleDelete_def Let_def Put_None split: prod.splits option.splits
      dest!: Replicate_store)


text \<open>
  C5. \<open>Get\<close> returns the stored entry as it is. A read of a key that holds an entry
  answers 404 when the entry is a tombstone or its expiry is set and before the time
  of the read, whether or not a sweep has run, and 200 with the value of the entry
  otherwise.
\<close>

theorem handleGet_logical_visibility:
  "Get s key = data s key
   \<and> (keyFromPath path = Inr key \<and> data (store n) key = Some it \<longrightarrow>
        handleGet n path now =
          (if Tombstone it \<or> (ExpiresAt it \<noteq> zeroTime \<and> ExpiresAt it < now)
           then \<lparr>status = 404, rbody = ErrorText ''404 page not found'', x_replicated = None\<rparr>
           else \<lparr>status = 200, rbody = Raw (Value it), x_replicated = None\<rparr>))"
  by (auto simp: Get_def handleGet_def respond_def expired_def IsZero_def After_def)

theorem handleGet_logical_visibility_witness:
  "keyFromPath ''/kv/ttl'' = Inr ''ttl''
   \<and> handleGet
       \<lparr>ID = ''N1'', Addr = '':8081'', store = \<lparr>data = [''ttl'' \<mapsto> \<lparr>Value = [118], ExpiresAt = 5000, Version = 1, Origin = ''N1'', Tombstone = False\<rparr>]\<rparr>, peers = {||}, failCounts = Map.empty,
       maxFailures = 3, ReqTimeout = 4000000000, HBInterval = 5000000000,
       JanitorEvery = 2000000000, TombstoneTTL = 300000000000\<rparr>
       ''/kv/ttl'' 6000
     = \<lparr>status = 404, rbody = ErrorText ''404 page not found'', x_replicated = None\<rparr>
   \<and> handleGet
       \<lparr>ID = ''N1'', Addr = '':8081'', store = \<lparr>data = [''ttl'' \<mapsto> \<lparr>Value = [118], ExpiresAt = 5000, Version = 1, Origin = ''N1'', Tombstone = False\<rparr>]\<rparr>, peers = {||}, failCounts = Map.empty,
       maxFailures = 3, ReqTimeout = 4000000000, HBInterval = 5000000000,
       JanitorEvery = 2000000000, TombstoneTTL = 300000000000\<rparr>
       ''/kv/ttl'' 4000
     = \<lparr>status = 200, rbody = Raw [118], x_replicated = None\<rparr>"
  using handleGet_logical_visibility [where path = "''/kv/ttl''" and key = "''ttl''"
      and n = "\<lparr>ID = ''N1'', Addr = '':8081'', store = \<lparr>data = [''ttl'' \<mapsto> \<lparr>Value = [118], ExpiresAt = 5000, Version = 1, Origin = ''N1'', Tombstone = False\<rparr>]\<rparr>, peers = {||}, failCounts = Map.empty,
       maxFailures = 3, ReqTimeout = 4000000000, HBInterval = 5000000000,
       JanitorEvery = 2000000000, TombstoneTTL = 300000000000\<rparr>"
      and it = "\<lparr>Value = [118], ExpiresAt = 5000, Version = 1, Origin = ''N1'', Tombstone = False\<rparr>" and now = 6000]
    handleGet_logical_visibility [where path = "''/kv/ttl''" and key = "''ttl''"
      and n = "\<lparr>ID = ''N1'', Addr = '':8081'', store = \<lparr>data = [''ttl'' \<mapsto> \<lparr>Value = [118], ExpiresAt = 5000, Version = 1, Origin = ''N1'', Tombstone = False\<rparr>]\<rparr>, peers = {||}, failCounts = Map.empty,
       maxFailures = 3, ReqTimeout = 4000000000, HBInterval = 5000000000,
       JanitorEvery = 2000000000, TombstoneTTL = 300000000000\<rparr>"
      and it = "\<lparr>Value = [118], ExpiresAt = 5000, Version = 1, Origin = ''N1'', Tombstone = False\<rparr>" and now = 4000]
  by (simp add: keyFromPath_def trimPrefix_def zeroTime_def)

text \<open>
  C8. \<open>handleSync\<close> dispatches no post to any peer, whatever it is given. For the
  operations \<open>set\<close> and \<open>del\<close> the node it returns is the node it was given with one
  \<open>Put\<close> of the translated entry applied to its store; peers and failure counts are
  as they were.
\<close>

theorem handleSync_applies_without_replication:
  "snd (snd (handleSync n decoded)) = {||}
   \<and> (Op msg = ''set'' \<or> Op msg = ''del'' \<longrightarrow>
        handleSync n (Some msg) =
          (n\<lparr>store := fst (Put (Key msg)
                 \<lparr>Value = (if Op msg = ''set'' then MValue msg else []),
                  ExpiresAt = (if Op msg = ''set''
                               then (case MExpiresAt msg of None \<Rightarrow> zeroTime | Some t \<Rightarrow> t)
                               else zeroTime),
                  Version = MVersion msg,
                  Origin = MOrigin msg,
                  Tombstone = (Op msg = ''del'')\<rparr>
                 (store n))\<rparr>,
           \<lparr>status = 204, rbody = NoBody, x_replicated = None\<rparr>, {||}))"
  by (auto simp: handleSync_def respond_def Let_def Item0_def split: option.splits)

theorem handleSync_applies_without_replication_witness:
  "Op \<lparr>Op = ''set'', Key = ''k'', MValue = [118], MExpiresAt = None, MVersion = 7, MOrigin = ''X''\<rparr> = ''set''
   \<and> handleSync
       \<lparr>ID = ''N1'', Addr = '':8081'', store = NewStore, peers = {||}, failCounts = Map.empty,
       maxFailures = 3, ReqTimeout = 4000000000, HBInterval = 5000000000,
       JanitorEvery = 2000000000, TombstoneTTL = 300000000000\<rparr>
       (Some \<lparr>Op = ''set'', Key = ''k'', MValue = [118], MExpiresAt = None, MVersion = 7, MOrigin = ''X''\<rparr>)
     = (\<lparr>ID = ''N1'', Addr = '':8081'', store = \<lparr>data = [''k'' \<mapsto> \<lparr>Value = [118], ExpiresAt = zeroTime, Version = 7, Origin = ''X'', Tombstone = False\<rparr>]\<rparr>, peers = {||}, failCounts = Map.empty,
       maxFailures = 3, ReqTimeout = 4000000000, HBInterval = 5000000000,
       JanitorEvery = 2000000000, TombstoneTTL = 300000000000\<rparr>,
        \<lparr>status = 204, rbody = NoBody, x_replicated = None\<rparr>, {||})"
  using handleSync_applies_without_replication [of
      "\<lparr>ID = ''N1'', Addr = '':8081'', store = NewStore, peers = {||}, failCounts = Map.empty,
       maxFailures = 3, ReqTimeout = 4000000000, HBInterval = 5000000000,
       JanitorEvery = 2000000000, TombstoneTTL = 300000000000\<rparr>" "None"
      "\<lparr>Op = ''set'', Key = ''k'', MValue = [118], MExpiresAt = None, MVersion = 7, MOrigin = ''X''\<rparr>"]
  by (simp add: NewStore_def Put_def)

text \<open>
  C2. A client write whose local apply is rejected as stale is not to be replicated.
  \<open>handlePut\<close> returns 409 before \<open>Replicate\<close> (lemma \<open>handlePut_stale_no_replication\<close>);
  \<open>handleDelete\<close> drops the result of \<open>Put\<close>: here the store holds a newer entry, the
  tombstone is rejected, and the handler still posts the \<open>del\<close> message to the peer and
  answers 204.
\<close>

theorem handleDelete_stale_still_replicates:
  "Put ''k'' \<lparr>Value = [], ExpiresAt = zeroTime, Version = 50, Origin = ''N1'', Tombstone = True\<rparr>
     \<lparr>data = [''k'' \<mapsto> \<lparr>Value = [97], ExpiresAt = zeroTime, Version = 100, Origin = ''N2'', Tombstone = False\<rparr>]\<rparr>
     = (\<lparr>data = [''k'' \<mapsto> \<lparr>Value = [97], ExpiresAt = zeroTime, Version = 100, Origin = ''N2'', Tombstone = False\<rparr>]\<rparr>, False)
   \<and> handleDelete
       \<lparr>ID = ''N1'', Addr = '':8081'', store = \<lparr>data = [''k'' \<mapsto> \<lparr>Value = [97], ExpiresAt = zeroTime, Version = 100, Origin = ''N2'', Tombstone = False\<rparr>]\<rparr>, peers = {|''p1''|}, failCounts = Map.empty,
       maxFailures = 3, ReqTimeout = 4000000000, HBInterval = 5000000000,
       JanitorEvery = 2000000000, TombstoneTTL = 300000000000\<rparr>
       \<lparr>req_path = ''/kv/k'', req_body = None, q_ttl = Some 0, q_min = Some 1, q_full = [],
       clock = 50, clock2 = 50, net = [(''p1'', PostStatus 204)]\<rparr>
     = (\<lparr>ID = ''N1'', Addr = '':8081'', store = \<lparr>data = [''k'' \<mapsto> \<lparr>Value = [97], ExpiresAt = zeroTime, Version = 100, Origin = ''N2'', Tombstone = False\<rparr>]\<rparr>, peers = {|''p1''|}, failCounts = [''p1'' \<mapsto> 0],
       maxFailures = 3, ReqTimeout = 4000000000, HBInterval = 5000000000,
       JanitorEvery = 2000000000, TombstoneTTL = 300000000000\<rparr>,
        \<lparr>status = 204, rbody = NoBody, x_replicated = Some (1, 1)\<rparr>,
        {|(''p1'', \<lparr>Op = ''del'', Key = ''k'', MValue = [], MExpiresAt = None, MVersion = 50, MOrigin = ''N1''\<rparr>)|})"
  by (simp add: Put_def handleDelete_def keyFromPath_def trimPrefix_def UnixNano_def Item0_def
      minRep_def ackTarget_def Replicate_def activePeers_def fcard_finsert_if fcard_fempty deliver_def
      deliver_res_def bumpFail_def)

text \<open>
  C10. A DELETE of a key that has no entry stores a tombstone for it (lemma
  \<open>handleDelete_absent_key\<close>) and is to answer 204 when replication meets its target.
  Here the target of 1 is met after a failed delivery, \<open>Replicate\<close> returns the error of
  that delivery, and the handler answers 502.
\<close>

theorem handleDelete_absent_key_target_met_502:
  "data (store
       \<lparr>ID = ''N1'', Addr = '':8081'', store = NewStore, peers = {|''p1'', ''p2''|}, failCounts = Map.empty,
       maxFailures = 3, ReqTimeout = 4000000000, HBInterval = 5000000000,
       JanitorEvery = 2000000000, TombstoneTTL = 300000000000\<rparr>) ''k'' = None
   \<and> ackTarget (minRep
       \<lparr>req_path = ''/kv/k'', req_body = None, q_ttl = Some 0, q_min = Some 1, q_full = [],
       clock = 50, clock2 = 50, net = [(''p1'', PostFailed ''connection refused''), (''p2'', PostStatus 204)]\<rparr>) False 2 = 1
   \<and> handleDelete
       \<lparr>ID = ''N1'', Addr = '':8081'', store = NewStore, peers = {|''p1'', ''p2''|}, failCounts = Map.empty,
       maxFailures = 3, ReqTimeout = 4000000000, HBInterval = 5000000000,
       JanitorEvery = 2000000000, TombstoneTTL = 300000000000\<rparr>
       \<lparr>req_path = ''/kv/k'', req_body = None, q_ttl = Some 0, q_min = Some 1, q_full = [],
       clock = 50, clock2 = 50, net = [(''p1'', PostFailed ''connection refused''), (''p2'', PostStatus 204)]\<rparr>
     = (\<lparr>ID = ''N1'', Addr = '':8081'', store = \<lparr>data = [''k'' \<mapsto> \<lparr>Value = [], ExpiresAt = zeroTime, Version = 50, Origin = ''N1'', Tombstone = True\<rparr>]\<rparr>, peers = {|''p1'', ''p2''|}, failCounts = [''p1'' \<mapsto> 1, ''p2'' \<mapsto> 0],
       maxFailures = 3, ReqTimeout = 4000000000, HBInterval = 5000000000,
       JanitorEvery = 2000000000, TombstoneTTL = 300000000000\<rparr>,
        \<lparr>status = 502, rbody = ReplicationError (ClientError ''connection refused'') 1 2,
          x_replicated = None\<rparr>,
        {|(''p1'', \<lparr>Op = ''del'', Key = ''k'', MValue = [], MExpiresAt = None, MVersion = 50, MOrigin = ''N1''\<rparr>),
          (''p2'', \<lparr>Op = ''del'', Key = ''k'', MValue = [], MExpiresAt = None, MVersion = 50, MOrigin = ''N1''\<rparr>)|})"
  by (simp add: NewStore_def Put_def handleDelete_def respond_def keyFromPath_def trimPrefix_def
      UnixNano_def Item0_def minRep_def ackTarget_def Replicate_def activePeers_def fcard_finsert_if fcard_fempty deliver_def
      deliver_res_def bumpFail_def)




end
